theory Spec2Isabelle
  imports Complex_Main
begin

section \<open>Data model of QuizService.js\<close>

text \<open>
  Strings are lists of characters, one per code unit: \<open>category[0]\<close> is the head of the
  list and \<open>startsWith\<close> compares a leading segment.
\<close>

text \<open>
  A row as the CSV parser hands it to the \<open>complete\<close> callback (\<open>header: true\<close>): every
  column is a string, or missing (\<open>undefined\<close>, written \<open>None\<close>) when the line is too short
  or the header has no such column.
\<close>

record csv_row =
  csv_id :: "string option"
  csv_category :: "string option"
  csv_question :: "string option"
  csv_optionA :: "string option"
  csv_optionB :: "string option"
  csv_optionC :: "string option"
  csv_optionD :: "string option"
  csv_correctAnswer :: "string option"
  csv_explanation :: "string option"

text \<open>
  An element of \<open>this.questions\<close>. The loader keeps a row only when \<open>item.id && item.question\<close>
  is truthy, and the built-in set gives both, so \<open>id\<close> and \<open>question\<close> are strings here; the
  other columns stay optional.
\<close>

record question =
  q_id :: string
  q_category :: "string option"
  q_question :: string
  q_optionA :: "string option"
  q_optionB :: "string option"
  q_optionC :: "string option"
  q_optionD :: "string option"
  q_correctAnswer :: "string option"
  q_explanation :: "string option"

text \<open>The object \<open>getRandomQuestion\<close> returns to the application.\<close>

record quiz_question =
  out_id :: string
  out_question :: string
  out_A :: "string option"
  out_B :: "string option"
  out_C :: "string option"
  out_D :: "string option"
  out_correctAnswer :: "string option"
  out_explanation :: "string option"

text \<open>
  JavaScript numbers as they occur in \<open>categoryCounts\<close>: a count, or \<open>NaN\<close>. A property read
  gives \<open>undefined\<close>, a number, or a member of \<open>Object.prototype\<close> (a function or object).
\<close>

datatype jsnum = Num nat | NaN

datatype jsval = Undefined | Number jsnum | Inherited

text \<open>
  What \<open>getFallbackQuestion\<close> (and so \<open>getRandomQuestion\<close>) can return: a question object, or
  the member of \<open>Object.prototype\<close> found under the given name.
\<close>

datatype js_result = Question quiz_question | PrototypeMember string

text \<open>
  The fields of the service object. \<open>usedQuestionIds\<close> is a JavaScript \<open>Set\<close> of strings,
  kept here in insertion order without duplicates; \<open>categoryCounts\<close> holds the own
  properties of a plain object.
\<close>

record quiz_service =
  questions :: "question list"
  usedQuestionIds :: "string list"
  categoryCounts :: "string \<rightharpoonup> jsnum"

text \<open>What the file lookup, the read and the CSV parser can give \<open>loadQuestions\<close>.\<close>

datatype csv_source =
    SourceUnavailable
  | ParseError
  | Parsed "csv_row list"

text \<open>
  What the read of the key \<open>brainbites_quiz_data\<close> can give \<open>loadSavedData\<close>: the read
  rejects; there is no record (\<open>null\<close> or the empty string); \<open>JSON.parse\<close> throws or gives
  \<open>null\<close>, whose field access throws; or the parsed value has an array of strings under
  \<open>usedQuestionIds\<close>, or nothing truthy there (\<open>Record None\<close>, also for a parsed number,
  boolean or array).
\<close>

datatype saved_data =
    ReadFails
  | NoRecord
  | Unparsable
  | Record "string list option"

section \<open>JavaScript primitives the service relies on\<close>

text \<open>Truthiness of a string-or-undefined value: \<open>undefined\<close> and \<open>''\<close> are falsy.\<close>

definition truthy :: "string option \<Rightarrow> bool" where
  "truthy v = (case v of None \<Rightarrow> False | Some s \<Rightarrow> s \<noteq> [])"

text \<open>\<open>String.prototype.startsWith\<close>.\<close>

definition startsWith :: "string \<Rightarrow> string \<Rightarrow> bool" where
  "startsWith s p = (take (length p) s = p)"

text \<open>\<open>new Set(array)\<close>: the elements in order of first occurrence.\<close>

definition newSet :: "string list \<Rightarrow> string list" where
  "newSet xs = rev (remdups (rev xs))"

text \<open>\<open>Set.prototype.add\<close>.\<close>

definition setAdd :: "string \<Rightarrow> string list \<Rightarrow> string list" where
  "setAdd x xs = (if x \<in> set xs then xs else xs @ [x])"

text \<open>
  The names every plain object inherits from \<open>Object.prototype\<close>. Each of them reads as a
  function (or, for \<open>__proto__\<close>, as \<open>Object.prototype\<close> itself), so a lookup under one of
  these names is truthy even when the object has no such key of its own.
\<close>

definition objectPrototypeKeys :: "string list" where
  "objectPrototypeKeys =
     [''constructor'', ''hasOwnProperty'', ''isPrototypeOf'', ''propertyIsEnumerable'',
      ''toLocaleString'', ''toString'', ''valueOf'', ''__proto__'',
      ''__defineGetter__'', ''__defineSetter__'', ''__lookupGetter__'', ''__lookupSetter__'']"

text \<open>Reading \<open>obj[k]\<close> on a plain object with the own properties \<open>own\<close>.\<close>

definition getProp :: "(string \<rightharpoonup> jsnum) \<Rightarrow> string \<Rightarrow> jsval" where
  "getProp own k =
     (case own k of
        Some v \<Rightarrow> Number v
      | None \<Rightarrow> if k \<in> set objectPrototypeKeys then Inherited else Undefined)"

text \<open>
  Writing \<open>obj[k] = v\<close> with a number \<open>v\<close>: an own property is created or updated, except
  under \<open>__proto__\<close>, whose inherited setter ignores a value that is not an object.
\<close>

definition setProp :: "(string \<rightharpoonup> jsnum) \<Rightarrow> string \<Rightarrow> jsnum \<Rightarrow> (string \<rightharpoonup> jsnum)" where
  "setProp own k v = (if k = ''__proto__'' then own else own(k \<mapsto> v))"

text \<open>\<open>!v\<close> is false exactly for the truthy values.\<close>

definition truthyVal :: "jsval \<Rightarrow> bool" where
  "truthyVal v =
     (case v of
        Undefined \<Rightarrow> False
      | Number (Num n) \<Rightarrow> n \<noteq> 0
      | Number NaN \<Rightarrow> False
      | Inherited \<Rightarrow> True)"

text \<open>The new value of \<open>v++\<close>: \<open>ToNumber v + 1\<close>, where only a number converts to a number.\<close>

definition increment :: "jsval \<Rightarrow> jsnum" where
  "increment v = (case v of Number (Num n) \<Rightarrow> Num (n + 1) | _ \<Rightarrow> NaN)"

text \<open>
  \<open>len < 0.2 * v\<close>: the product is \<open>NaN\<close> unless \<open>v\<close> is a number, and a comparison with
  \<open>NaN\<close> is false. The product is taken exactly; for a count \<open>5 * k\<close> the double
  \<open>0.2 * (5 * k)\<close> rounds to \<open>k\<close>, and otherwise the exact product is at least \<open>0.2\<close> away
  from every integer, so the comparison with an integer length agrees with the one on
  doubles for every count a list can have.
\<close>

definition belowThreshold :: "nat \<Rightarrow> jsval \<Rightarrow> bool" where
  "belowThreshold len v =
     (case v of Number (Num n) \<Rightarrow> real len < 0.2 * real n | _ \<Rightarrow> False)"

text \<open>
  \<open>toUpperCase\<close> on the letters \<open>a\<close> to \<open>z\<close>, for evaluating the service on concrete
  categories. The service itself takes the case mapping of the runtime as an argument.
\<close>

definition asciiUpperCase :: "char \<Rightarrow> string" where
  "asciiUpperCase ch =
     (case map_of (zip ''abcdefghijklmnopqrstuvwxyz'' ''ABCDEFGHIJKLMNOPQRSTUVWXYZ'') ch of
        Some u \<Rightarrow> [u]
      | None \<Rightarrow> [ch])"

section \<open>The service\<close>

text \<open>The constructor's field initialisers.\<close>

definition initial :: quiz_service where
  "initial = \<lparr>questions = [], usedQuestionIds = [], categoryCounts = Map.empty\<rparr>"

text \<open>\<open>loadSavedData\<close>: every failure is caught and logged, leaving the set as it was.\<close>

definition loadSavedData :: "quiz_service \<Rightarrow> saved_data \<Rightarrow> quiz_service" where
  "loadSavedData s d =
     (case d of
        Record ids \<Rightarrow>
          s\<lparr>usedQuestionIds := newSet (case ids of None \<Rightarrow> [] | Some xs \<Rightarrow> xs)\<rparr>
      | _ \<Rightarrow> s)"

text \<open>
  \<open>saveData\<close> writes the set to the external store and swallows a failure of the write;
  it assigns no field of the service, so it is the identity on \<open>quiz_service\<close>.
\<close>

definition saveData :: "quiz_service \<Rightarrow> quiz_service" where
  "saveData s = s"

text \<open>The filter of the \<open>complete\<close> callback: \<open>item.id && item.question\<close>.\<close>

definition keepRow :: "csv_row \<Rightarrow> question option" where
  "keepRow item =
     (case (csv_id item, csv_question item) of
        (Some i, Some t) \<Rightarrow>
          if i \<noteq> [] \<and> t \<noteq> [] then
            Some \<lparr>q_id = i, q_category = csv_category item, q_question = t,
                  q_optionA = csv_optionA item, q_optionB = csv_optionB item,
                  q_optionC = csv_optionC item, q_optionD = csv_optionD item,
                  q_correctAnswer = csv_correctAnswer item,
                  q_explanation = csv_explanation item\<rparr>
          else None
      | _ \<Rightarrow> None)"

text \<open>The body of the counting \<open>forEach\<close>, for one question.\<close>

definition countQuestion :: "(string \<rightharpoonup> jsnum) \<Rightarrow> question \<Rightarrow> (string \<rightharpoonup> jsnum)" where
  "countQuestion counts q =
     (if truthy (q_category q) then
        (case q_category q of
           None \<Rightarrow> counts
         | Some c \<Rightarrow>
             let counts1 = (if \<not> truthyVal (getProp counts c) then setProp counts c (Num 0)
                            else counts)
             in setProp counts1 c (increment (getProp counts1 c)))
      else counts)"

definition countCategories :: "question list \<Rightarrow> (string \<rightharpoonup> jsnum)" where
  "countCategories qs = foldl countQuestion Map.empty qs"

definition fallbackQuestions :: "question list" where
  "fallbackQuestions =
     [\<lparr>q_id = ''A1'', q_category = Some ''funfacts'',
       q_question = ''Which planet is known as the Red Planet?'',
       q_optionA = Some ''Venus'', q_optionB = Some ''Mars'',
       q_optionC = Some ''Jupiter'', q_optionD = Some ''Saturn'',
       q_correctAnswer = Some ''B'',
       q_explanation = Some ''Mars is called the Red Planet because of the reddish iron oxide on its surface.''\<rparr>,
      \<lparr>q_id = ''B1'', q_category = Some ''psychology'',
       q_question = ''What is the fear of spiders called?'',
       q_optionA = Some ''Arachnophobia'', q_optionB = Some ''Acrophobia'',
       q_optionC = Some ''Agoraphobia'', q_optionD = Some ''Aerophobia'',
       q_correctAnswer = Some ''A'',
       q_explanation = Some ''Arachnophobia is the intense fear of spiders and other arachnids.''\<rparr>]"

definition setupFallbackQuestions :: "quiz_service \<Rightarrow> quiz_service" where
  "setupFallbackQuestions s =
     s\<lparr>questions := fallbackQuestions,
       categoryCounts := [''funfacts'' \<mapsto> Num 1, ''psychology'' \<mapsto> Num 1]\<rparr>"

text \<open>
  \<open>loadQuestions\<close>: a missing file, a failed copy or read and the parser's \<open>error\<close>
  callback all end in \<open>setupFallbackQuestions\<close>; the \<open>complete\<close> callback installs the
  filtered rows and recounts.
\<close>

definition loadQuestions :: "quiz_service \<Rightarrow> csv_source \<Rightarrow> quiz_service" where
  "loadQuestions s src =
     (case src of
        Parsed rows \<Rightarrow>
          (let qs = List.map_filter keepRow rows
           in s\<lparr>questions := qs, categoryCounts := countCategories qs\<rparr>)
      | _ \<Rightarrow> setupFallbackQuestions s)"

definition fallback_funfacts :: quiz_question where
  "fallback_funfacts =
     \<lparr>out_id = ''fallback-funfacts'', out_question = ''Which planet is closest to the Sun?'',
      out_A = Some ''Earth'', out_B = Some ''Venus'', out_C = Some ''Mercury'',
      out_D = Some ''Mars'', out_correctAnswer = Some ''C'',
      out_explanation = Some ''Mercury is the closest planet to the Sun in our solar system.''\<rparr>"

definition fallback_psychology :: quiz_question where
  "fallback_psychology =
     \<lparr>out_id = ''fallback-psychology'', out_question = ''What is the study of dreams called?'',
      out_A = Some ''Oneirology'', out_B = Some ''Neurology'', out_C = Some ''Psychology'',
      out_D = Some ''Psychiatry'', out_correctAnswer = Some ''A'',
      out_explanation = Some ''Oneirology is the scientific study of dreams.''\<rparr>"

definition fallback_default :: quiz_question where
  "fallback_default =
     \<lparr>out_id = ''fallback-default'', out_question = ''What is 2 + 2?'',
      out_A = Some ''3'', out_B = Some ''4'', out_C = Some ''5'',
      out_D = Some ''6'', out_correctAnswer = Some ''B'',
      out_explanation = Some ''2 + 2 = 4. This is a basic addition fact.''\<rparr>"

text \<open>
  \<open>getFallbackQuestion\<close>: \<open>fallbacks[category] || fallbacks['default']\<close> on an object
  literal with the keys \<open>funfacts\<close>, \<open>psychology\<close> and \<open>default\<close>. The lookup follows the
  prototype chain, and what it finds there is truthy.
\<close>

definition getFallbackQuestion :: "string \<Rightarrow> js_result" where
  "getFallbackQuestion category =
     (if category = ''funfacts'' then Question fallback_funfacts
      else if category = ''psychology'' then Question fallback_psychology
      else if category = ''default'' then Question fallback_default
      else if category \<in> set objectPrototypeKeys then PrototypeMember category
      else Question fallback_default)"

text \<open>The object literal returned for a selected question.\<close>

definition formatQuestion :: "question \<Rightarrow> quiz_question" where
  "formatQuestion q =
     \<lparr>out_id = q_id q, out_question = q_question q,
      out_A = q_optionA q, out_B = q_optionB q, out_C = q_optionC q, out_D = q_optionD q,
      out_correctAnswer = q_correctAnswer q, out_explanation = q_explanation q\<rparr>"

text \<open>The two filters at the head of \<open>getRandomQuestion\<close>.\<close>

definition categoryQuestions :: "quiz_service \<Rightarrow> string \<Rightarrow> question list" where
  "categoryQuestions s category = filter (\<lambda>q. q_category q = Some category) (questions s)"

definition availableQuestions :: "quiz_service \<Rightarrow> string \<Rightarrow> question list" where
  "availableQuestions s category =
     filter (\<lambda>q. q_id q \<notin> set (usedQuestionIds s)) (categoryQuestions s category)"

text \<open>The \<open>forEach\<close> that deletes every id starting with the prefix.\<close>

definition clearPrefix :: "string \<Rightarrow> quiz_service \<Rightarrow> quiz_service" where
  "clearPrefix categoryPrefix s =
     s\<lparr>usedQuestionIds := filter (\<lambda>i. \<not> startsWith i categoryPrefix) (usedQuestionIds s)\<rparr>"

text \<open>
  \<open>getRandomQuestion\<close>. The arguments \<open>toUpperCase\<close> and \<open>random\<close> are the runtime's case
  mapping of one character and the value \<open>Math.random()\<close> returns in this call; \<open>arg\<close> is
  the argument as passed, \<open>None\<close> when it is left out. The function returns the value the
  promise resolves to and the service afterwards; \<open>None\<close> means the promise never resolves.
  Every \<open>throw\<close> inside the \<open>try\<close> ends in the \<open>catch\<close>, which returns
  \<open>getFallbackQuestion category\<close>: no question for the category, \<open>category[0]\<close> undefined
  for the empty string, and \<open>availableQuestions[randomIndex]\<close> undefined.
  The index \<open>Math.floor(random * length)\<close> is taken exactly. On doubles it lies in
  \<open>0 .. length - 1\<close> as well, and every index in that range is the exact index of some
  \<open>random\<close> in \<open>[0, 1)\<close>, so a statement for all such \<open>random\<close> covers every selection
  the code can make.
\<close>

partial_function (option) getRandomQuestion ::
  "(char \<Rightarrow> string) \<Rightarrow> real \<Rightarrow> quiz_service \<Rightarrow> string option \<Rightarrow> (js_result \<times> quiz_service) option"
where
  "getRandomQuestion toUpperCase random s arg =
     (let category = (case arg of None \<Rightarrow> ''funfacts'' | Some c \<Rightarrow> c) in
      if categoryQuestions s category = [] then Some (getFallbackQuestion category, s)
      else if belowThreshold (length (availableQuestions s category))
                (getProp (categoryCounts s) category) then
        (case category of
           [] \<Rightarrow> Some (getFallbackQuestion category, s)
         | ch # _ \<Rightarrow>
             getRandomQuestion toUpperCase random
               (saveData (clearPrefix (toUpperCase ch) s)) (Some category))
      else if availableQuestions s category = [] then Some (getFallbackQuestion category, s)
      else
        (let randomIndex = \<lfloor>random * real (length (availableQuestions s category))\<rfloor> in
         if 0 \<le> randomIndex \<and> randomIndex < int (length (availableQuestions s category)) then
           (let q = availableQuestions s category ! nat randomIndex in
            Some (Question (formatQuestion q),
                  saveData (s\<lparr>usedQuestionIds := setAdd (q_id q) (usedQuestionIds s)\<rparr>)))
         else Some (getFallbackQuestion category, s)))"

text \<open>
  \<open>getCategories\<close>: the distinct values of \<open>q.category\<close> in order of first occurrence
  (\<open>None\<close> for a question without the column), or the seven built-in names.
\<close>

definition defaultCategories :: "string list" where
  "defaultCategories =
     [''funfacts'', ''psychology'', ''math'', ''science'', ''history'', ''english'', ''general'']"

definition getCategories :: "quiz_service \<Rightarrow> string option list" where
  "getCategories s =
     (let categories = rev (remdups (rev (map q_category (questions s))))
      in if length categories > 0 then categories else map Some defaultCategories)"

definition resetUsedQuestions :: "quiz_service \<Rightarrow> quiz_service" where
  "resetUsedQuestions s = saveData (s\<lparr>usedQuestionIds := []\<rparr>)"

text \<open>
  A complete CSV row with the given id and category, for concrete banks, and the
  question the loader makes of it.
\<close>

definition exampleQuestion :: "string \<Rightarrow> string \<Rightarrow> question" where
  "exampleQuestion i c =
     \<lparr>q_id = i, q_category = Some c, q_question = ''What is 1 + 1?'',
      q_optionA = Some ''1'', q_optionB = Some ''2'', q_optionC = Some ''3'',
      q_optionD = Some ''4'', q_correctAnswer = Some ''B'',
      q_explanation = Some ''1 + 1 = 2.''\<rparr>"

definition exampleRow :: "string \<Rightarrow> string \<Rightarrow> csv_row" where
  "exampleRow i c =
     \<lparr>csv_id = Some i, csv_category = Some c, csv_question = Some ''What is 1 + 1?'',
      csv_optionA = Some ''1'', csv_optionB = Some ''2'', csv_optionC = Some ''3'',
      csv_optionD = Some ''4'', csv_correctAnswer = Some ''B'',
      csv_explanation = Some ''1 + 1 = 2.''\<rparr>"

section \<open>One step of \<open>getRandomQuestion\<close>\<close>

lemma getRandomQuestion_empty:
  "categoryQuestions s c = [] \<Longrightarrow>
   getRandomQuestion up r s (Some c) = Some (getFallbackQuestion c, s)"
  by (subst getRandomQuestion.simps) simp

lemma getRandomQuestion_reset:
  "categoryQuestions s (ch # cs) \<noteq> [] \<Longrightarrow>
   belowThreshold (length (availableQuestions s (ch # cs))) (getProp (categoryCounts s) (ch # cs)) \<Longrightarrow>
   getRandomQuestion up r s (Some (ch # cs)) =
     getRandomQuestion up r (clearPrefix (up ch) s) (Some (ch # cs))"
  by (subst getRandomQuestion.simps) (simp add: saveData_def)

lemma floor_index:
  assumes "0 \<le> r" "r < 1" "0 < n"
  shows "0 \<le> \<lfloor>r * real n\<rfloor> \<and> \<lfloor>r * real n\<rfloor> < int n"
proof -
  have "r * real n < real n" using assms by simp
  then have "\<lfloor>r * real n\<rfloor> < int n" by (simp add: floor_less_iff)
  moreover have "0 \<le> r * real n" using assms by simp
  ultimately show ?thesis by simp
qed

lemma getRandomQuestion_select:
  assumes "categoryQuestions s c \<noteq> []"
    and "\<not> belowThreshold (length (availableQuestions s c)) (getProp (categoryCounts s) c)"
    and "availableQuestions s c \<noteq> []"
    and "0 \<le> r" "r < 1"
  shows "getRandomQuestion up r s (Some c) =
     Some (Question (formatQuestion (availableQuestions s c ! nat \<lfloor>r * real (length (availableQuestions s c))\<rfloor>)),
           s\<lparr>usedQuestionIds := setAdd (q_id (availableQuestions s c ! nat \<lfloor>r * real (length (availableQuestions s c))\<rfloor>)) (usedQuestionIds s)\<rparr>)"
proof -
  have "0 < length (availableQuestions s c)" using assms(3) by simp
  from floor_index[OF assms(4,5) this] show ?thesis
    using assms(1,2,3) by (subst getRandomQuestion.simps) (simp add: saveData_def Let_def)
qed

section \<open>The counting loop\<close>

lemma countQuestion_other:
  "q_category q \<noteq> Some c \<Longrightarrow> countQuestion m q c = m c"
  by (auto simp: countQuestion_def setProp_def Let_def truthy_def split: option.splits)

lemma countQuestion_same:
  assumes "q_category q = Some c" "c \<noteq> []"
  shows "countQuestion m q c =
     (if c = ''__proto__'' then m c
      else Some (case m c of
                   None \<Rightarrow> if c \<in> set objectPrototypeKeys then NaN else Num 1
                 | Some (Num n) \<Rightarrow> Num (n + 1)
                 | Some NaN \<Rightarrow> Num 1))"
  using assms
  by (auto simp: countQuestion_def setProp_def getProp_def truthy_def truthyVal_def
        increment_def Let_def split: option.splits jsnum.splits)

lemma countQuestion_empty_key: "m [] = None \<Longrightarrow> countQuestion m q [] = None"
  by (auto simp: countQuestion_def setProp_def Let_def truthy_def split: option.splits)

lemma countCategories_snoc:
  "countCategories (qs @ [q]) = countQuestion (countCategories qs) q"
  by (simp add: countCategories_def)

lemma countCategories_empty_key: "countCategories qs [] = None"
  by (induction qs rule: rev_induct)
     (simp_all add: countCategories_snoc countQuestion_empty_key, simp add: countCategories_def)

lemma countCategories_le:
  "countCategories qs c = Some (Num n) \<Longrightarrow>
   n \<le> length (filter (\<lambda>q. q_category q = Some c) qs)"
proof (induction qs arbitrary: n rule: rev_induct)
  case Nil
  then show ?case by (simp add: countCategories_def)
next
  case (snoc q qs)
  show ?case
  proof (cases "q_category q = Some c")
    case False
    with snoc show ?thesis by (simp add: countCategories_snoc countQuestion_other)
  next
    case True
    have ne: "c \<noteq> []" using snoc.prems countCategories_empty_key[of "qs @ [q]"] by auto
    from snoc.prems True ne show ?thesis
      using snoc.IH
      by (auto simp: countCategories_snoc countQuestion_same split: if_splits option.splits jsnum.splits)
  qed
qed

lemma countCategories_exact:
  assumes "c \<noteq> []" "c \<notin> set objectPrototypeKeys"
  shows "countCategories qs c =
     (if filter (\<lambda>q. q_category q = Some c) qs = [] then None
      else Some (Num (length (filter (\<lambda>q. q_category q = Some c) qs))))"
proof (induction qs rule: rev_induct)
  case Nil
  then show ?case by (simp add: countCategories_def)
next
  case (snoc q qs)
  have np: "c \<noteq> ''__proto__''" using assms(2) by (auto simp: objectPrototypeKeys_def)
  show ?case
  proof (cases "q_category q = Some c")
    case False
    with snoc show ?thesis by (simp add: countCategories_snoc countQuestion_other)
  next
    case True
    with snoc assms np show ?thesis
      by (simp add: countCategories_snoc countQuestion_same)
  qed
qed

lemma loaded_count_le:
  assumes "getProp (categoryCounts (loadQuestions s0 src)) c = Number (Num n)"
  shows "n \<le> length (categoryQuestions (loadQuestions s0 src) c)"
proof (cases src)
  case (Parsed rows)
  with assms have "countCategories (List.map_filter keepRow rows) c = Some (Num n)"
    by (auto simp: loadQuestions_def getProp_def Let_def split: option.splits if_splits)
  from countCategories_le[OF this] Parsed show ?thesis
    by (simp add: loadQuestions_def categoryQuestions_def Let_def)
next
  case SourceUnavailable
  with assms show ?thesis
    by (auto simp: loadQuestions_def setupFallbackQuestions_def getProp_def categoryQuestions_def
          fallbackQuestions_def split: option.splits if_splits)
next
  case ParseError
  with assms show ?thesis
    by (auto simp: loadQuestions_def setupFallbackQuestions_def getProp_def categoryQuestions_def
          fallbackQuestions_def split: option.splits if_splits)
qed

section \<open>Availability and the threshold\<close>

lemma not_below_if_enough:
  assumes "getProp m c = Number (Num n)" "n \<le> u + a" "real u < 0.8 * real n"
  shows "\<not> belowThreshold a (getProp m c) \<and> 0 < a"
proof -
  have "real n \<le> real u + real a" using assms(2) by linarith
  with assms(3) have "0.2 * real n < real a \<or> (n = 0 \<and> False)" by linarith
  then have "0.2 * real n < real a" by simp
  moreover have "0 \<le> 0.2 * real n" by simp
  ultimately show ?thesis using assms(1) by (auto simp: belowThreshold_def)
qed

lemma available_split:
  "length (filter (\<lambda>q. q_id q \<in> set (usedQuestionIds s)) (categoryQuestions s c))
     + length (availableQuestions s c) = length (categoryQuestions s c)"
  unfolding availableQuestions_def by (rule sum_length_filter_compl)

lemma available_subset: "set (availableQuestions s c) \<subseteq> set (categoryQuestions s c)"
  by (auto simp: availableQuestions_def)

lemma available_unused: "q \<in> set (availableQuestions s c) \<Longrightarrow> q_id q \<notin> set (usedQuestionIds s)"
  by (simp add: availableQuestions_def)

section \<open>The frame of \<open>getRandomQuestion\<close>\<close>

lemma getRandomQuestion_frame:
  assumes "getRandomQuestion toUpperCase random s arg = Some y"
  shows "questions (snd y) = questions s \<and> categoryCounts (snd y) = categoryCounts s"
  using assms
proof (induction rule: getRandomQuestion.raw_induct[rotated 1, consumes 1])
  case (1 f up r s arg y)
  then show ?case
    by (auto simp: Let_def saveData_def clearPrefix_def split: if_splits list.splits dest!: "1.IH")
qed

section \<open>The reset\<close>

lemma clearPrefix_idle:
  "\<forall>i \<in> set (usedQuestionIds s). \<not> startsWith i p \<Longrightarrow> clearPrefix p s = s"
  by (simp add: clearPrefix_def)

lemma categoryQuestions_clearPrefix [simp]:
  "categoryQuestions (clearPrefix p s) c = categoryQuestions s c"
  by (simp add: categoryQuestions_def clearPrefix_def)

lemma categoryCounts_clearPrefix [simp]:
  "categoryCounts (clearPrefix p s) = categoryCounts s"
  by (simp add: clearPrefix_def)

lemma usedQuestionIds_clearPrefix:
  "usedQuestionIds (clearPrefix p s) = filter (\<lambda>i. \<not> startsWith i p) (usedQuestionIds s)"
  by (simp add: clearPrefix_def)

lemma available_after_clearPrefix:
  assumes "\<forall>q \<in> set (categoryQuestions s c). startsWith (q_id q) p"
  shows "availableQuestions (clearPrefix p s) c = categoryQuestions s c"
  using assms by (simp add: availableQuestions_def usedQuestionIds_clearPrefix filter_id_conv)

text \<open>
  A reset that deletes nothing leaves the service as it was, so the retry is the same
  call again: the promise never resolves.
\<close>

lemma stuck_never_returns:
  assumes "getRandomQuestion toUpperCase random s arg = Some y"
    and "arg = Some (ch # cs)"
    and "categoryQuestions s (ch # cs) \<noteq> []"
    and "belowThreshold (length (availableQuestions s (ch # cs)))
           (getProp (categoryCounts s) (ch # cs))"
    and "\<forall>i \<in> set (usedQuestionIds s). \<not> startsWith i (toUpperCase ch)"
  shows False
  using assms
proof (induction rule: getRandomQuestion.raw_induct[rotated 1, consumes 1])
  case (1 f up r s arg y)
  from "1.prems"(4) have idle: "clearPrefix (up ch) s = s" by (rule clearPrefix_idle)
  from "1.hyps" have "f up r s (Some (ch # cs)) = Some y"
    using "1.prems"(1,2,3) idle by (simp add: saveData_def)
  then show ?case using "1.IH" "1.prems" by blast
qed

lemma stuck_diverges:
  assumes "categoryQuestions s (ch # cs) \<noteq> []"
    and "belowThreshold (length (availableQuestions s (ch # cs)))
           (getProp (categoryCounts s) (ch # cs))"
    and "\<forall>i \<in> set (usedQuestionIds s). \<not> startsWith i (toUpperCase ch)"
  shows "getRandomQuestion toUpperCase random s (Some (ch # cs)) = None"
proof (cases "getRandomQuestion toUpperCase random s (Some (ch # cs))")
  case None
  then show ?thesis .
next
  case (Some y)
  from stuck_never_returns[OF Some refl assms] show ?thesis ..
qed

text \<open>
  A reset on a category whose ids all start with the prefix makes the whole category
  available, and the retry selects from it.
\<close>

lemma reset_then_select:
  assumes le: "n \<le> length (categoryQuestions s (ch # cs))"
    and cnt: "getProp (categoryCounts s) (ch # cs) = Number (Num n)"
    and low: "real (length (availableQuestions s (ch # cs))) < 0.2 * real n"
    and conv: "\<forall>q \<in> set (categoryQuestions s (ch # cs)). startsWith (q_id q) (toUpperCase ch)"
    and r: "0 \<le> random" "random < 1"
  shows "\<exists>q. q \<in> set (categoryQuestions s (ch # cs)) \<and>
           getRandomQuestion toUpperCase random s (Some (ch # cs)) =
             Some (Question (formatQuestion q),
                   s\<lparr>usedQuestionIds :=
                       filter (\<lambda>i. \<not> startsWith i (toUpperCase ch)) (usedQuestionIds s) @ [q_id q]\<rparr>)"
proof -
  let ?c = "ch # cs"
  let ?p = "toUpperCase ch"
  let ?s1 = "clearPrefix ?p s"
  let ?pool = "categoryQuestions s ?c"
  let ?i = "nat \<lfloor>random * real (length ?pool)\<rfloor>"
  have npos: "0 < n"
  proof (rule ccontr)
    assume "\<not> 0 < n"
    then have "n = 0" by simp
    with low show False by simp
  qed
  with le have pos: "0 < length ?pool" by linarith
  then have cq: "?pool \<noteq> []" by auto
  have bt: "belowThreshold (length (availableQuestions s ?c)) (getProp (categoryCounts s) ?c)"
    using cnt low by (simp add: belowThreshold_def)
  have step: "getRandomQuestion toUpperCase random s (Some ?c) =
                getRandomQuestion toUpperCase random ?s1 (Some ?c)"
    using cq bt by (rule getRandomQuestion_reset)
  have av1: "availableQuestions ?s1 ?c = ?pool"
    using conv by (rule available_after_clearPrefix)
  have "real n \<le> real (length ?pool)" using le by simp
  then have "\<not> real (length ?pool) < 0.2 * real n" by simp
  then have nb1: "\<not> belowThreshold (length (availableQuestions ?s1 ?c))
                     (getProp (categoryCounts ?s1) ?c)"
    using cnt by (simp add: av1 belowThreshold_def)
  have cq1: "categoryQuestions ?s1 ?c \<noteq> []" using cq by simp
  have ne1: "availableQuestions ?s1 ?c \<noteq> []" using cq by (simp add: av1)
  have "?i < length ?pool" using floor_index[OF r pos] by linarith
  then have mem: "?pool ! ?i \<in> set ?pool" by simp
  with conv have "startsWith (q_id (?pool ! ?i)) ?p" by blast
  then have fresh: "q_id (?pool ! ?i) \<notin> set (usedQuestionIds ?s1)"
    by (simp add: usedQuestionIds_clearPrefix)
  have "getRandomQuestion toUpperCase random ?s1 (Some ?c) =
          Some (Question (formatQuestion (?pool ! ?i)),
                ?s1\<lparr>usedQuestionIds := usedQuestionIds ?s1 @ [q_id (?pool ! ?i)]\<rparr>)"
    using getRandomQuestion_select[OF cq1 nb1 ne1 r, of toUpperCase] fresh
    by (simp add: av1 setAdd_def)
  moreover have "?s1\<lparr>usedQuestionIds := usedQuestionIds ?s1 @ [q_id (?pool ! ?i)]\<rparr> =
      s\<lparr>usedQuestionIds := filter (\<lambda>i. \<not> startsWith i ?p) (usedQuestionIds s) @ [q_id (?pool ! ?i)]\<rparr>"
    by (simp add: clearPrefix_def)
  ultimately show ?thesis using step mem by auto
qed

text \<open>
  The same without a convention on the ids: whenever the threshold test fails after the
  reset, the retry selects among the questions available then.
\<close>

lemma available_after_reset_subset:
  "set (availableQuestions (clearPrefix p s) c) \<subseteq> set (categoryQuestions s c)"
  using available_subset[of "clearPrefix p s" c] by simp

lemma reset_then_select_general:
  assumes cnt: "getProp (categoryCounts s) (ch # cs) = Number (Num n)"
    and low: "real (length (availableQuestions s (ch # cs))) < 0.2 * real n"
    and enough: "\<not> real (length (availableQuestions (clearPrefix (toUpperCase ch) s) (ch # cs)))
                     < 0.2 * real n"
    and r: "0 \<le> random" "random < 1"
  shows "\<exists>q. q \<in> set (availableQuestions (clearPrefix (toUpperCase ch) s) (ch # cs)) \<and>
           getRandomQuestion toUpperCase random s (Some (ch # cs)) =
             Some (Question (formatQuestion q),
                   s\<lparr>usedQuestionIds :=
                       filter (\<lambda>i. \<not> startsWith i (toUpperCase ch)) (usedQuestionIds s) @ [q_id q]\<rparr>)"
proof -
  let ?c = "ch # cs"
  let ?p = "toUpperCase ch"
  let ?s1 = "clearPrefix ?p s"
  let ?av = "availableQuestions ?s1 ?c"
  let ?i = "nat \<lfloor>random * real (length ?av)\<rfloor>"
  have npos: "0 < n"
  proof (rule ccontr)
    assume "\<not> 0 < n"
    then have "n = 0" by simp
    with low show False by simp
  qed
  have pos: "0 < length ?av"
  proof (rule ccontr)
    assume "\<not> 0 < length ?av"
    then have "length ?av = 0" by simp
    with enough npos show False by simp
  qed
  then have ne1: "?av \<noteq> []" by auto
  then have cq1: "categoryQuestions ?s1 ?c \<noteq> []" using available_subset[of ?s1 ?c] by auto
  then have cq: "categoryQuestions s ?c \<noteq> []" by simp
  have bt: "belowThreshold (length (availableQuestions s ?c)) (getProp (categoryCounts s) ?c)"
    using cnt low by (simp add: belowThreshold_def)
  have step: "getRandomQuestion toUpperCase random s (Some ?c) =
                getRandomQuestion toUpperCase random ?s1 (Some ?c)"
    using cq bt by (rule getRandomQuestion_reset)
  have nb1: "\<not> belowThreshold (length ?av) (getProp (categoryCounts ?s1) ?c)"
    using cnt enough by (simp add: belowThreshold_def)
  have "?i < length ?av" using floor_index[OF r pos] by linarith
  then have mem: "?av ! ?i \<in> set ?av" by simp
  then have fresh: "q_id (?av ! ?i) \<notin> set (usedQuestionIds ?s1)" by (rule available_unused)
  have "getRandomQuestion toUpperCase random ?s1 (Some ?c) =
          Some (Question (formatQuestion (?av ! ?i)),
                ?s1\<lparr>usedQuestionIds := usedQuestionIds ?s1 @ [q_id (?av ! ?i)]\<rparr>)"
    using getRandomQuestion_select[OF cq1 nb1 ne1 r, of toUpperCase] fresh
    by (simp add: setAdd_def)
  moreover have "?s1\<lparr>usedQuestionIds := usedQuestionIds ?s1 @ [q_id (?av ! ?i)]\<rparr> =
      s\<lparr>usedQuestionIds := filter (\<lambda>i. \<not> startsWith i ?p) (usedQuestionIds s) @ [q_id (?av ! ?i)]\<rparr>"
    by (simp add: clearPrefix_def)
  ultimately show ?thesis using step mem by auto
qed

section \<open>Loading\<close>

lemma keepRow_None:
  "(keepRow row = None) = (\<not> (truthy (csv_id row) \<and> truthy (csv_question row)))"
  by (auto simp: keepRow_def truthy_def split: option.splits)

lemma map_filter_all_None: "\<forall>x \<in> set xs. f x = None \<Longrightarrow> List.map_filter f xs = []"
  by (induction xs) (simp_all add: List.map_filter_simps)

lemma loadQuestions_used: "usedQuestionIds (loadQuestions s src) = usedQuestionIds s"
  by (cases src) (simp_all add: loadQuestions_def setupFallbackQuestions_def Let_def)

lemma loaded_empty_category: "categoryCounts (loadQuestions s src) [] = None"
  by (cases src)
     (simp_all add: loadQuestions_def setupFallbackQuestions_def Let_def countCategories_empty_key)

lemma loaded_count_exact:
  assumes "c \<noteq> []" "c \<notin> set objectPrototypeKeys"
  shows "categoryCounts (loadQuestions s src) c =
     (if categoryQuestions (loadQuestions s src) c = [] then None
      else Some (Num (length (categoryQuestions (loadQuestions s src) c))))"
proof (cases src)
  case (Parsed rows)
  then show ?thesis
    using countCategories_exact[OF assms, of "List.map_filter keepRow rows"]
    by (simp add: loadQuestions_def categoryQuestions_def Let_def)
next
  case SourceUnavailable
  then show ?thesis
    by (simp add: loadQuestions_def setupFallbackQuestions_def categoryQuestions_def
          fallbackQuestions_def)
next
  case ParseError
  then show ?thesis
    by (simp add: loadQuestions_def setupFallbackQuestions_def categoryQuestions_def
          fallbackQuestions_def)
qed

lemma set_newSet: "set (newSet xs) = set xs"
  by (simp add: newSet_def)

section \<open>The fallback question\<close>

lemma getFallbackQuestion_ordinary:
  "c \<notin> set objectPrototypeKeys \<Longrightarrow>
   getFallbackQuestion c =
     Question (if c = ''funfacts'' then fallback_funfacts
               else if c = ''psychology'' then fallback_psychology else fallback_default)"
  by (simp add: getFallbackQuestion_def)

lemma no_questions_gives_fallback:
  assumes "c \<notin> set objectPrototypeKeys" and "categoryQuestions s c = []"
  shows "getRandomQuestion toUpperCase random s (Some c) =
     Some (Question (if c = ''funfacts'' then fallback_funfacts
                     else if c = ''psychology'' then fallback_psychology else fallback_default),
           s)"
  using getRandomQuestion_empty[OF assms(2)] getFallbackQuestion_ordinary[OF assms(1)] by simp

section \<open>Concrete banks\<close>

lemma fallback_state:
  "loadQuestions initial SourceUnavailable =
     \<lparr>questions = fallbackQuestions, usedQuestionIds = [],
      categoryCounts = [''funfacts'' \<mapsto> Num 1, ''psychology'' \<mapsto> Num 1]\<rparr>"
  by (simp add: loadQuestions_def setupFallbackQuestions_def initial_def)

lemma fallback_first_call:
  "getRandomQuestion asciiUpperCase 0 (loadQuestions initial SourceUnavailable) (Some ''funfacts'') =
     Some (Question (formatQuestion (fallbackQuestions ! 0)),
           (loadQuestions initial SourceUnavailable)\<lparr>usedQuestionIds := [''A1'']\<rparr>)"
proof -
  let ?s = "loadQuestions initial SourceUnavailable"
  have cq: "categoryQuestions ?s ''funfacts'' = [fallbackQuestions ! 0]"
    by (simp add: fallback_state categoryQuestions_def fallbackQuestions_def)
  have av: "availableQuestions ?s ''funfacts'' = [fallbackQuestions ! 0]"
    by (simp add: availableQuestions_def cq) (simp add: fallback_state)
  have nb: "\<not> belowThreshold (length (availableQuestions ?s ''funfacts''))
              (getProp (categoryCounts ?s) ''funfacts'')"
    by (simp add: av) (simp add: fallback_state getProp_def belowThreshold_def)
  have "getRandomQuestion asciiUpperCase 0 ?s (Some ''funfacts'') =
     Some (Question (formatQuestion (fallbackQuestions ! 0)),
           ?s\<lparr>usedQuestionIds := setAdd (q_id (fallbackQuestions ! 0)) (usedQuestionIds ?s)\<rparr>)"
    using getRandomQuestion_select[of ?s "''funfacts''" 0 asciiUpperCase] nb
    by (simp add: cq av)
  moreover have "setAdd (q_id (fallbackQuestions ! 0)) (usedQuestionIds ?s) = [''A1'']"
    by (simp add: fallback_state setAdd_def fallbackQuestions_def)
  ultimately show ?thesis by simp
qed

lemma keepRow_exampleRow:
  "keepRow (exampleRow i c) = (if i = [] then None else Some (exampleQuestion i c))"
  by (simp add: keepRow_def exampleRow_def exampleQuestion_def)

lemma countQuestion_exampleQuestion:
  "countQuestion m (exampleQuestion i c) =
     (if c = [] then m
      else let m1 = (if \<not> truthyVal (getProp m c) then setProp m c (Num 0) else m)
           in setProp m1 c (increment (getProp m1 c)))"
  by (simp add: countQuestion_def exampleQuestion_def truthy_def)

lemma one_question_state:
  "loadQuestions (loadSavedData initial (Record (Some [''F1''])))
      (Parsed [exampleRow ''F1'' ''funfacts''])
     = \<lparr>questions = [exampleQuestion ''F1'' ''funfacts''], usedQuestionIds = [''F1''],
        categoryCounts = [''funfacts'' \<mapsto> Num 1]\<rparr>"
  by (simp add: loadQuestions_def loadSavedData_def initial_def newSet_def keepRow_exampleRow
        countCategories_def countQuestion_exampleQuestion getProp_def setProp_def truthyVal_def
        increment_def objectPrototypeKeys_def Let_def)

lemma one_question_facts:
  defines "s \<equiv> loadQuestions (loadSavedData initial (Record (Some [''F1''])))
      (Parsed [exampleRow ''F1'' ''funfacts''])"
  shows "categoryQuestions s ''funfacts'' = [exampleQuestion ''F1'' ''funfacts'']"
    and "availableQuestions s ''funfacts'' = []"
    and "getProp (categoryCounts s) ''funfacts'' = Number (Num 1)"
    and "usedQuestionIds s = [''F1'']"
    and "startsWith ''F1'' (asciiUpperCase CHR ''f'')"
  unfolding s_def one_question_state
  by (simp_all add: categoryQuestions_def availableQuestions_def exampleQuestion_def getProp_def
        startsWith_def asciiUpperCase_def)

lemma three_question_state:
  "loadQuestions (loadSavedData initial (Record (Some [''F1''])))
      (Parsed [exampleRow ''F1'' ''funfacts'', exampleRow ''F2'' ''funfacts'',
               exampleRow ''F3'' ''funfacts''])
     = \<lparr>questions = [exampleQuestion ''F1'' ''funfacts'', exampleQuestion ''F2'' ''funfacts'',
                     exampleQuestion ''F3'' ''funfacts''],
        usedQuestionIds = [''F1''],
        categoryCounts = [''funfacts'' \<mapsto> Num 3]\<rparr>"
  by (simp add: loadQuestions_def loadSavedData_def initial_def newSet_def keepRow_exampleRow
        countCategories_def countQuestion_exampleQuestion getProp_def setProp_def truthyVal_def
        increment_def objectPrototypeKeys_def Let_def numeral_3_eq_3 numeral_2_eq_2)

lemma three_question_facts:
  defines "s \<equiv> loadQuestions (loadSavedData initial (Record (Some [''F1''])))
      (Parsed [exampleRow ''F1'' ''funfacts'', exampleRow ''F2'' ''funfacts'',
               exampleRow ''F3'' ''funfacts''])"
  shows "categoryQuestions s ''funfacts'' =
           [exampleQuestion ''F1'' ''funfacts'', exampleQuestion ''F2'' ''funfacts'',
            exampleQuestion ''F3'' ''funfacts'']"
    and "availableQuestions s ''funfacts'' =
           [exampleQuestion ''F2'' ''funfacts'', exampleQuestion ''F3'' ''funfacts'']"
    and "getProp (categoryCounts s) ''funfacts'' = Number (Num 3)"
    and "usedQuestionIds s = [''F1'']"
  unfolding s_def three_question_state
  by (simp_all add: categoryQuestions_def availableQuestions_def exampleQuestion_def getProp_def)

lemma two_question_state:
  "loadQuestions (loadSavedData initial (Record (Some [''F1'', ''A2''])))
      (Parsed [exampleRow ''F1'' ''funfacts'', exampleRow ''A2'' ''funfacts''])
     = \<lparr>questions = [exampleQuestion ''F1'' ''funfacts'', exampleQuestion ''A2'' ''funfacts''],
        usedQuestionIds = [''F1'', ''A2''],
        categoryCounts = [''funfacts'' \<mapsto> Num 2]\<rparr>"
  by (simp add: loadQuestions_def loadSavedData_def initial_def newSet_def keepRow_exampleRow
        countCategories_def countQuestion_exampleQuestion getProp_def setProp_def truthyVal_def
        increment_def objectPrototypeKeys_def Let_def numeral_3_eq_3 numeral_2_eq_2)

lemma two_question_facts:
  defines "s \<equiv> loadQuestions (loadSavedData initial (Record (Some [''F1'', ''A2''])))
      (Parsed [exampleRow ''F1'' ''funfacts'', exampleRow ''A2'' ''funfacts''])"
  shows "availableQuestions s ''funfacts'' = []"
    and "getProp (categoryCounts s) ''funfacts'' = Number (Num 2)"
    and "usedQuestionIds s = [''F1'', ''A2'']"
    and "availableQuestions (clearPrefix (asciiUpperCase CHR ''f'') s) ''funfacts'' =
           [exampleQuestion ''F1'' ''funfacts'']"
    and "filter (\<lambda>i. \<not> startsWith i (asciiUpperCase CHR ''f'')) (usedQuestionIds s) = [''A2'']"
  unfolding s_def two_question_state
  by (simp_all add: categoryQuestions_def availableQuestions_def exampleQuestion_def getProp_def
        clearPrefix_def startsWith_def asciiUpperCase_def)

section \<open>Claims\<close>

text \<open>
  C1 (no immediate repeat). Take the service after any load of the bank, with any set of
  used ids, and a category whose recorded count is the number \<open>n\<close>. If the number of
  the category's questions whose id is marked used is less than \<open>0.8 * n\<close>, and
  \<open>Math.random()\<close> is in \<open>[0, 1)\<close>, then \<open>getRandomQuestion\<close> returns a question object
  whose \<open>id\<close> was not in the used-id set at call time. The object carries the id, text,
  options, answer and explanation of a bank question of the category; no id is deleted
  (no reset), the returned id is the only one added, and the bank is unchanged.
\<close>

theorem no_immediate_repeat:
  assumes "s = loadQuestions s0 src"
    and "getProp (categoryCounts s) c = Number (Num n)"
    and "real (length (filter (\<lambda>q. q_id q \<in> set (usedQuestionIds s)) (categoryQuestions s c)))
           < 0.8 * real n"
    and "0 \<le> random" and "random < 1"
  shows "\<exists>q out s'.
           getRandomQuestion toUpperCase random s (Some c) = Some (Question out, s') \<and>
           out_id out \<notin> set (usedQuestionIds s) \<and>
           q \<in> set (questions s) \<and> q_category q = Some c \<and>
           out_id out = q_id q \<and> out_question out = q_question q \<and>
           out_A out = q_optionA q \<and> out_B out = q_optionB q \<and>
           out_C out = q_optionC q \<and> out_D out = q_optionD q \<and>
           out_correctAnswer out = q_correctAnswer q \<and>
           out_explanation out = q_explanation q \<and>
           usedQuestionIds s' = usedQuestionIds s @ [out_id out] \<and>
           questions s' = questions s \<and> categoryCounts s' = categoryCounts s"
proof -
  let ?av = "availableQuestions s c"
  let ?i = "nat \<lfloor>random * real (length ?av)\<rfloor>"
  let ?q = "?av ! ?i"
  let ?out = "formatQuestion ?q"
  let ?s' = "s\<lparr>usedQuestionIds := usedQuestionIds s @ [q_id ?q]\<rparr>"
  have le: "n \<le> length (categoryQuestions s c)"
    using assms(1,2) loaded_count_le by simp
  then have "n \<le> length (filter (\<lambda>q. q_id q \<in> set (usedQuestionIds s)) (categoryQuestions s c))
                 + length ?av"
    using available_split[of s c] by simp
  from not_below_if_enough[OF assms(2) this assms(3)]
  have nb: "\<not> belowThreshold (length ?av) (getProp (categoryCounts s) c)" and pos: "0 < length ?av"
    by simp_all
  have av: "?av \<noteq> []" using pos by auto
  then have cq: "categoryQuestions s c \<noteq> []" using available_subset[of s c] by auto
  have "?i < length ?av" using floor_index[OF assms(4,5) pos] by linarith
  then have mem: "?q \<in> set ?av" by simp
  then have unused: "q_id ?q \<notin> set (usedQuestionIds s)" by (rule available_unused)
  from mem have inbank: "?q \<in> set (questions s)" and cat: "q_category ?q = Some c"
    by (simp_all add: availableQuestions_def categoryQuestions_def)
  have run: "getRandomQuestion toUpperCase random s (Some c) = Some (Question ?out, ?s')"
    using getRandomQuestion_select[OF cq nb av assms(4,5), of toUpperCase] unused
    by (simp add: setAdd_def)
  have fields: "out_id ?out = q_id ?q" "out_question ?out = q_question ?q"
      "out_A ?out = q_optionA ?q" "out_B ?out = q_optionB ?q"
      "out_C ?out = q_optionC ?q" "out_D ?out = q_optionD ?q"
      "out_correctAnswer ?out = q_correctAnswer ?q" "out_explanation ?out = q_explanation ?q"
    by (simp_all add: formatQuestion_def)
  have norepeat: "out_id ?out \<notin> set (usedQuestionIds s)" using unused by (simp add: fields(1))
  have used: "usedQuestionIds ?s' = usedQuestionIds s @ [out_id ?out]" by (simp add: fields(1))
  have frame: "questions ?s' = questions s" "categoryCounts ?s' = categoryCounts s" by simp_all
  show ?thesis
    using run norepeat inbank cat fields used frame by blast
qed

text \<open>
  C1 on a bank of three questions of one category with \<open>F1\<close> marked used and
  \<open>Math.random()\<close> giving \<open>0.5\<close>: the call returns \<open>F3\<close>.
\<close>

theorem no_immediate_repeat_witness:
  "getProp (categoryCounts (loadQuestions (loadSavedData initial (Record (Some [''F1''])))
      (Parsed [exampleRow ''F1'' ''funfacts'', exampleRow ''F2'' ''funfacts'',
               exampleRow ''F3'' ''funfacts'']))) ''funfacts'' = Number (Num 3)
   \<and> usedQuestionIds (loadQuestions (loadSavedData initial (Record (Some [''F1''])))
      (Parsed [exampleRow ''F1'' ''funfacts'', exampleRow ''F2'' ''funfacts'',
               exampleRow ''F3'' ''funfacts''])) = [''F1'']
   \<and> length (filter (\<lambda>q. q_id q \<in> set [''F1''])
        (categoryQuestions (loadQuestions (loadSavedData initial (Record (Some [''F1''])))
      (Parsed [exampleRow ''F1'' ''funfacts'', exampleRow ''F2'' ''funfacts'',
               exampleRow ''F3'' ''funfacts''])) ''funfacts'')) = 1
   \<and> (1::real) < 0.8 * real 3
   \<and> (\<exists>out s'.
        getRandomQuestion asciiUpperCase (1/2) (loadQuestions (loadSavedData initial (Record (Some [''F1''])))
      (Parsed [exampleRow ''F1'' ''funfacts'', exampleRow ''F2'' ''funfacts'',
               exampleRow ''F3'' ''funfacts''])) (Some ''funfacts'') = Some (Question out, s')
        \<and> out_id out \<notin> set [''F1'']
        \<and> out_id out = ''F3''
        \<and> usedQuestionIds s' = [''F1'', ''F3''])"
proof -
  let ?s = "loadQuestions (loadSavedData initial (Record (Some [''F1''])))
      (Parsed [exampleRow ''F1'' ''funfacts'', exampleRow ''F2'' ''funfacts'',
               exampleRow ''F3'' ''funfacts''])"
  have h2: "getProp (categoryCounts ?s) ''funfacts'' = Number (Num 3)"
    by (rule three_question_facts(3))
  have u: "usedQuestionIds ?s = [''F1'']" by (rule three_question_facts(4))
  have cnt: "length (filter (\<lambda>q. q_id q \<in> set [''F1'']) (categoryQuestions ?s ''funfacts'')) = 1"
    by (simp add: three_question_facts(1) exampleQuestion_def)
  have h3: "real (length (filter (\<lambda>q. q_id q \<in> set (usedQuestionIds ?s))
              (categoryQuestions ?s ''funfacts''))) < 0.8 * real 3"
    using cnt by (simp add: u)
  have h4: "(0::real) \<le> 1/2" and h5: "(1/2::real) < 1" by simp_all
  have idx: "nat \<lfloor>(1/2::real) * real (length (availableQuestions ?s ''funfacts''))\<rfloor> = 1"
    by (simp add: three_question_facts(2))
  have cq: "categoryQuestions ?s ''funfacts'' \<noteq> []" by (simp add: three_question_facts(1))
  have av: "availableQuestions ?s ''funfacts'' \<noteq> []" by (simp add: three_question_facts(2))
  have nb: "\<not> belowThreshold (length (availableQuestions ?s ''funfacts''))
               (getProp (categoryCounts ?s) ''funfacts'')"
    by (simp add: three_question_facts(2) h2 belowThreshold_def)
  have eval: "getRandomQuestion asciiUpperCase (1/2) ?s (Some ''funfacts'') =
      Some (Question (formatQuestion (exampleQuestion ''F3'' ''funfacts'')),
            ?s\<lparr>usedQuestionIds := [''F1'', ''F3'']\<rparr>)"
    using getRandomQuestion_select[OF cq nb av h4 h5, of asciiUpperCase]
    by (simp add: idx) (simp add: three_question_facts(2) u setAdd_def exampleQuestion_def)
  from no_immediate_repeat[OF refl h2 h3 h4 h5, of asciiUpperCase]
  obtain q out s' where
    run: "getRandomQuestion asciiUpperCase (1/2) ?s (Some ''funfacts'') = Some (Question out, s')"
    and fresh: "out_id out \<notin> set (usedQuestionIds ?s)"
    and used: "usedQuestionIds s' = usedQuestionIds ?s @ [out_id out]"
    by blast
  from run eval have "out = formatQuestion (exampleQuestion ''F3'' ''funfacts'')" by simp
  then have oid: "out_id out = ''F3''" by (simp add: formatQuestion_def exampleQuestion_def)
  have "\<exists>out s'. getRandomQuestion asciiUpperCase (1/2) ?s (Some ''funfacts'') = Some (Question out, s')
        \<and> out_id out \<notin> set [''F1''] \<and> out_id out = ''F3'' \<and> usedQuestionIds s' = [''F1'', ''F3'']"
    using run fresh used oid u by auto
  with h2 u cnt show ?thesis by simp
qed

text \<open>
  C2 (the retry terminates). On the built-in bank the claim fails. The first call for
  \<open>funfacts\<close> returns question \<open>A1\<close> and marks it used. In the second call
  nothing is available, the reset looks for ids starting with \<open>F\<close> and deletes
  none, and the retry is the same call on the same service: it never returns.
\<close>

theorem retry_loops_on_builtin_bank:
  "getRandomQuestion asciiUpperCase 0 (loadQuestions initial SourceUnavailable) (Some ''funfacts'') =
     Some (Question (formatQuestion (fallbackQuestions ! 0)),
           (loadQuestions initial SourceUnavailable)\<lparr>usedQuestionIds := [''A1'']\<rparr>)
   \<and> getRandomQuestion asciiUpperCase 0
        ((loadQuestions initial SourceUnavailable)\<lparr>usedQuestionIds := [''A1'']\<rparr>)
        (Some ''funfacts'') = None"
proof -
  let ?s = "(loadQuestions initial SourceUnavailable)\<lparr>usedQuestionIds := [''A1'']\<rparr>"
  have cq: "categoryQuestions ?s ''funfacts'' \<noteq> []"
    by (simp add: fallback_state categoryQuestions_def fallbackQuestions_def)
  have av: "availableQuestions ?s ''funfacts'' = []"
    by (simp add: fallback_state availableQuestions_def categoryQuestions_def fallbackQuestions_def)
  have bt: "belowThreshold (length (availableQuestions ?s ''funfacts''))
              (getProp (categoryCounts ?s) ''funfacts'')"
    by (simp add: av) (simp add: fallback_state getProp_def belowThreshold_def)
  have idle: "\<forall>i \<in> set (usedQuestionIds ?s). \<not> startsWith i (asciiUpperCase CHR ''f'')"
    by (simp add: startsWith_def asciiUpperCase_def)
  have "getRandomQuestion asciiUpperCase 0 ?s (Some ''funfacts'') = None"
    using stuck_diverges[of ?s "CHR ''f''" "''unfacts''" asciiUpperCase 0] cq bt idle by simp
  with fallback_first_call show ?thesis by simp
qed

text \<open>
  C3 (exhaustion reset), as the code has it. Take any service and a category with first
  character \<open>ch\<close> whose recorded count is \<open>n\<close>, with fewer than \<open>0.2 * n\<close> questions
  available before the call, at least \<open>0.2 * n\<close> available once the ids starting with the
  uppercase of \<open>ch\<close> are cleared, and \<open>Math.random()\<close> in \<open>[0, 1)\<close>. Then the call
  returns a question object that carries the id, text, options, answer and explanation of
  a question of the category whose id is not tracked after the clearing. The used-id set
  afterwards is the old set without the ids that start with the prefix, followed by the
  returned id, so the only tracked id with the prefix is the one just returned; the bank
  is unchanged.
\<close>

theorem exhaustion_reset:
  assumes "getProp (categoryCounts s) (ch # cs) = Number (Num n)"
    and "real (length (availableQuestions s (ch # cs))) < 0.2 * real n"
    and "\<not> real (length (availableQuestions (clearPrefix (toUpperCase ch) s) (ch # cs)))
             < 0.2 * real n"
    and "0 \<le> random" and "random < 1"
  shows "\<exists>q out s'.
           getRandomQuestion toUpperCase random s (Some (ch # cs)) = Some (Question out, s') \<and>
           q \<in> set (categoryQuestions s (ch # cs)) \<and>
           q_id q \<notin> set (filter (\<lambda>i. \<not> startsWith i (toUpperCase ch)) (usedQuestionIds s)) \<and>
           out_id out = q_id q \<and> out_question out = q_question q \<and>
           out_A out = q_optionA q \<and> out_B out = q_optionB q \<and>
           out_C out = q_optionC q \<and> out_D out = q_optionD q \<and>
           out_correctAnswer out = q_correctAnswer q \<and>
           out_explanation out = q_explanation q \<and>
           usedQuestionIds s' =
             filter (\<lambda>i. \<not> startsWith i (toUpperCase ch)) (usedQuestionIds s) @ [out_id out] \<and>
           (\<forall>i \<in> set (usedQuestionIds s'). startsWith i (toUpperCase ch) \<longrightarrow> i = out_id out) \<and>
           questions s' = questions s \<and> categoryCounts s' = categoryCounts s"
proof -
  let ?p = "toUpperCase ch"
  let ?s1 = "clearPrefix ?p s"
  from reset_then_select_general[where toUpperCase = toUpperCase and ch = ch, OF assms]
  obtain q where av: "q \<in> set (availableQuestions ?s1 (ch # cs))"
    and run: "getRandomQuestion toUpperCase random s (Some (ch # cs)) =
             Some (Question (formatQuestion q),
                   s\<lparr>usedQuestionIds :=
                       filter (\<lambda>i. \<not> startsWith i ?p) (usedQuestionIds s) @ [q_id q]\<rparr>)"
    by blast
  let ?out = "formatQuestion q"
  let ?s' = "s\<lparr>usedQuestionIds := filter (\<lambda>i. \<not> startsWith i ?p) (usedQuestionIds s) @ [q_id q]\<rparr>"
  have pool: "q \<in> set (categoryQuestions s (ch # cs))"
    using av available_after_reset_subset by blast
  have fresh: "q_id q \<notin> set (filter (\<lambda>i. \<not> startsWith i ?p) (usedQuestionIds s))"
    using available_unused[OF av] by (simp add: usedQuestionIds_clearPrefix)
  have fields: "out_id ?out = q_id q" "out_question ?out = q_question q"
      "out_A ?out = q_optionA q" "out_B ?out = q_optionB q"
      "out_C ?out = q_optionC q" "out_D ?out = q_optionD q"
      "out_correctAnswer ?out = q_correctAnswer q" "out_explanation ?out = q_explanation q"
    by (simp_all add: formatQuestion_def)
  have used: "usedQuestionIds ?s' =
      filter (\<lambda>i. \<not> startsWith i ?p) (usedQuestionIds s) @ [out_id ?out]"
    by (simp add: fields(1))
  have only: "\<forall>i \<in> set (usedQuestionIds ?s'). startsWith i ?p \<longrightarrow> i = out_id ?out"
    by (auto simp: fields(1))
  have frame: "questions ?s' = questions s" "categoryCounts ?s' = categoryCounts s"
    by simp_all
  show ?thesis
    using run pool fresh fields used only frame by blast
qed

text \<open>
  C3 on a bank of two questions \<open>F1\<close> and \<open>A2\<close> of the category funfacts, both marked
  used: the reset clears \<open>F1\<close> alone, the call returns \<open>F1\<close>, and the used-id set
  afterwards is \<open>A2\<close>, \<open>F1\<close>.
\<close>

theorem exhaustion_reset_witness:
  "getProp (categoryCounts (loadQuestions (loadSavedData initial (Record (Some [''F1'', ''A2''])))
      (Parsed [exampleRow ''F1'' ''funfacts'', exampleRow ''A2'' ''funfacts'']))) ''funfacts''
     = Number (Num 2)
   \<and> usedQuestionIds (loadQuestions (loadSavedData initial (Record (Some [''F1'', ''A2''])))
      (Parsed [exampleRow ''F1'' ''funfacts'', exampleRow ''A2'' ''funfacts''])) = [''F1'', ''A2'']
   \<and> real (length (availableQuestions (loadQuestions (loadSavedData initial (Record (Some [''F1'', ''A2''])))
      (Parsed [exampleRow ''F1'' ''funfacts'', exampleRow ''A2'' ''funfacts''])) ''funfacts''))
        < 0.2 * real 2
   \<and> \<not> real (length (availableQuestions (clearPrefix (asciiUpperCase CHR ''f'')
        (loadQuestions (loadSavedData initial (Record (Some [''F1'', ''A2''])))
      (Parsed [exampleRow ''F1'' ''funfacts'', exampleRow ''A2'' ''funfacts'']))) ''funfacts''))
        < 0.2 * real 2
   \<and> (\<exists>out s'.
        getRandomQuestion asciiUpperCase 0 (loadQuestions (loadSavedData initial (Record (Some [''F1'', ''A2''])))
      (Parsed [exampleRow ''F1'' ''funfacts'', exampleRow ''A2'' ''funfacts''])) (Some ''funfacts'')
          = Some (Question out, s')
        \<and> out_id out = ''F1''
        \<and> usedQuestionIds s' = [''A2'', ''F1'']
        \<and> (\<forall>i \<in> set (usedQuestionIds s'). startsWith i (asciiUpperCase CHR ''f'') \<longrightarrow> i = out_id out))"
proof -
  let ?s = "loadQuestions (loadSavedData initial (Record (Some [''F1'', ''A2''])))
      (Parsed [exampleRow ''F1'' ''funfacts'', exampleRow ''A2'' ''funfacts''])"
  have h1: "getProp (categoryCounts ?s) (CHR ''f'' # ''unfacts'') = Number (Num 2)"
    using two_question_facts(2) by simp
  have h2: "real (length (availableQuestions ?s (CHR ''f'' # ''unfacts''))) < 0.2 * real 2"
    using two_question_facts(1) by simp
  have h3: "\<not> real (length (availableQuestions (clearPrefix (asciiUpperCase CHR ''f'') ?s)
               (CHR ''f'' # ''unfacts''))) < 0.2 * real 2"
    using two_question_facts(4) by simp
  have h4: "(0::real) \<le> 0" and h5: "(0::real) < 1" by simp_all
  from exhaustion_reset[where toUpperCase = asciiUpperCase and ch = "CHR ''f''",
      OF h1 h2 h3 h4 h5]
  obtain q out s' where
    run: "getRandomQuestion asciiUpperCase 0 ?s (Some ''funfacts'') = Some (Question out, s')"
    and pool: "q \<in> set (categoryQuestions ?s ''funfacts'')"
    and fresh: "q_id q \<notin> set (filter (\<lambda>i. \<not> startsWith i (asciiUpperCase CHR ''f''))
                  (usedQuestionIds ?s))"
    and oid: "out_id out = q_id q"
    and used: "usedQuestionIds s' =
        filter (\<lambda>i. \<not> startsWith i (asciiUpperCase CHR ''f'')) (usedQuestionIds ?s) @ [out_id out]"
    and only: "\<forall>i \<in> set (usedQuestionIds s'). startsWith i (asciiUpperCase CHR ''f'') \<longrightarrow> i = out_id out"
    by blast
  have "q_id q \<noteq> ''A2''" using fresh by (simp add: two_question_facts(5))
  moreover have "q_id q = ''F1'' \<or> q_id q = ''A2''"
    using pool by (auto simp: two_question_state categoryQuestions_def exampleQuestion_def)
  ultimately have "out_id out = ''F1''" using oid by simp
  moreover from this used have "usedQuestionIds s' = [''A2'', ''F1'']"
    by (simp add: two_question_facts(5))
  ultimately have "\<exists>out s'.
        getRandomQuestion asciiUpperCase 0 ?s (Some ''funfacts'') = Some (Question out, s')
        \<and> out_id out = ''F1''
        \<and> usedQuestionIds s' = [''A2'', ''F1'']
        \<and> (\<forall>i \<in> set (usedQuestionIds s'). startsWith i (asciiUpperCase CHR ''f'') \<longrightarrow> i = out_id out)"
    using run only by blast
  with h1 h2 h3 two_question_facts(3) show ?thesis by simp
qed

text \<open>
  C3 as stated fails on a bank of one question \<open>F1\<close> that is marked used: the call
  resets and returns \<open>F1\<close>, and the used-id set afterwards holds \<open>F1\<close>, which starts
  with \<open>F\<close>.
\<close>

theorem returned_id_stays_tracked:
  "getProp (categoryCounts (loadQuestions (loadSavedData initial (Record (Some [''F1''])))
      (Parsed [exampleRow ''F1'' ''funfacts'']))) ''funfacts'' = Number (Num 1)
   \<and> real (length (availableQuestions (loadQuestions (loadSavedData initial (Record (Some [''F1''])))
      (Parsed [exampleRow ''F1'' ''funfacts''])) ''funfacts'')) < 0.2 * real 1
   \<and> getRandomQuestion asciiUpperCase 0 (loadQuestions (loadSavedData initial (Record (Some [''F1''])))
      (Parsed [exampleRow ''F1'' ''funfacts''])) (Some ''funfacts'') =
        Some (Question (formatQuestion (exampleQuestion ''F1'' ''funfacts'')),
              \<lparr>questions = [exampleQuestion ''F1'' ''funfacts''], usedQuestionIds = [''F1''],
               categoryCounts = [''funfacts'' \<mapsto> Num 1]\<rparr>)
   \<and> out_id (formatQuestion (exampleQuestion ''F1'' ''funfacts'')) = ''F1''
   \<and> startsWith ''F1'' (asciiUpperCase CHR ''f'')"
proof -
  let ?s = "loadQuestions (loadSavedData initial (Record (Some [''F1''])))
      (Parsed [exampleRow ''F1'' ''funfacts''])"
  have h1: "1 \<le> length (categoryQuestions ?s (CHR ''f'' # ''unfacts''))"
    using one_question_facts(1) by simp
  have h2: "getProp (categoryCounts ?s) (CHR ''f'' # ''unfacts'') = Number (Num 1)"
    using one_question_facts(3) by simp
  have h3: "real (length (availableQuestions ?s (CHR ''f'' # ''unfacts''))) < 0.2 * real 1"
    using one_question_facts(2) by simp
  have h4: "\<forall>q \<in> set (categoryQuestions ?s (CHR ''f'' # ''unfacts'')).
              startsWith (q_id q) (asciiUpperCase CHR ''f'')"
    using one_question_facts(1,5) by (simp add: exampleQuestion_def)
  have h5: "(0::real) \<le> 0" and h6: "(0::real) < 1" by simp_all
  from reset_then_select[where toUpperCase = asciiUpperCase and ch = "CHR ''f''", OF h1 h2 h3 h4 h5 h6]
  have "getRandomQuestion asciiUpperCase 0 ?s (Some ''funfacts'') =
          Some (Question (formatQuestion (exampleQuestion ''F1'' ''funfacts'')),
                ?s\<lparr>usedQuestionIds :=
                    filter (\<lambda>i. \<not> startsWith i (asciiUpperCase CHR ''f'')) (usedQuestionIds ?s)
                      @ [q_id (exampleQuestion ''F1'' ''funfacts'')]\<rparr>)"
    using one_question_facts(1) by simp
  moreover have "?s\<lparr>usedQuestionIds :=
                    filter (\<lambda>i. \<not> startsWith i (asciiUpperCase CHR ''f'')) (usedQuestionIds ?s)
                      @ [q_id (exampleQuestion ''F1'' ''funfacts'')]\<rparr>
       = \<lparr>questions = [exampleQuestion ''F1'' ''funfacts''], usedQuestionIds = [''F1''],
               categoryCounts = [''funfacts'' \<mapsto> Num 1]\<rparr>"
    using one_question_facts(5) by (simp add: one_question_state exampleQuestion_def)
  moreover have "out_id (formatQuestion (exampleQuestion ''F1'' ''funfacts'')) = ''F1''"
    by (simp add: formatQuestion_def exampleQuestion_def)
  ultimately show ?thesis using h2 h3 one_question_facts(5) by simp
qed

text \<open>
  C4 (bank load without valid rows), as the code has it. When every parsed row lacks a
  truthy \<open>id\<close> or \<open>question\<close>, the loaded bank is empty and so is the count
  mapping; \<open>getCategories\<close> then returns the seven built-in names, among them
  funfacts and psychology. The built-in two-question bank is installed when the source
  is unavailable or the parser reports an error. \<open>loadQuestions\<close> is total.
\<close>

theorem no_valid_rows_empty_bank:
  assumes "\<forall>row \<in> set rows. \<not> (truthy (csv_id row) \<and> truthy (csv_question row))"
  shows "questions (loadQuestions s (Parsed rows)) = []
    \<and> categoryCounts (loadQuestions s (Parsed rows)) = Map.empty
    \<and> getCategories (loadQuestions s (Parsed rows)) = map Some defaultCategories
    \<and> Some ''funfacts'' \<in> set (getCategories (loadQuestions s (Parsed rows)))
    \<and> Some ''psychology'' \<in> set (getCategories (loadQuestions s (Parsed rows)))
    \<and> questions (loadQuestions s SourceUnavailable) = fallbackQuestions
    \<and> questions (loadQuestions s ParseError) = fallbackQuestions
    \<and> set (getCategories (loadQuestions s SourceUnavailable)) = {Some ''funfacts'', Some ''psychology''}
    \<and> set (getCategories (loadQuestions s ParseError)) = {Some ''funfacts'', Some ''psychology''}"
proof -
  have "List.map_filter keepRow rows = []"
    using assms by (intro map_filter_all_None) (simp add: keepRow_None)
  then have q: "questions (loadQuestions s (Parsed rows)) = []"
    and c: "categoryCounts (loadQuestions s (Parsed rows)) = Map.empty"
    by (simp_all add: loadQuestions_def countCategories_def)
  from q have g: "getCategories (loadQuestions s (Parsed rows)) = map Some defaultCategories"
    by (simp add: getCategories_def)
  have f: "questions (loadQuestions s SourceUnavailable) = fallbackQuestions"
      "questions (loadQuestions s ParseError) = fallbackQuestions"
    by (simp_all add: loadQuestions_def setupFallbackQuestions_def)
  have gf: "set (getCategories (loadQuestions s SourceUnavailable)) = {Some ''funfacts'', Some ''psychology''}"
     "set (getCategories (loadQuestions s ParseError)) = {Some ''funfacts'', Some ''psychology''}"
    by (simp_all add: getCategories_def f) (simp_all add: fallbackQuestions_def)
  show ?thesis using q c g f gf by (simp add: defaultCategories_def)
qed

text \<open>
  C4 on a source whose only row has an empty id.
\<close>

theorem no_valid_rows_empty_bank_witness:
  "\<not> (truthy (csv_id (exampleRow '''' ''math'')) \<and> truthy (csv_question (exampleRow '''' ''math'')))
   \<and> questions (loadQuestions initial (Parsed [exampleRow '''' ''math''])) = []
   \<and> getCategories (loadQuestions initial (Parsed [exampleRow '''' ''math''])) = map Some defaultCategories"
proof -
  have h: "\<forall>row \<in> set [exampleRow '''' ''math'']. \<not> (truthy (csv_id row) \<and> truthy (csv_question row))"
    by (simp add: exampleRow_def truthy_def)
  have h': "\<not> (truthy (csv_id (exampleRow '''' ''math'')) \<and> truthy (csv_question (exampleRow '''' ''math'')))"
    using h by simp
  from no_valid_rows_empty_bank[OF h, of initial] h' show ?thesis by blast
qed

text \<open>
  C4 as stated fails on that source: the loaded bank is empty, not the built-in
  two-question bank.
\<close>

theorem no_valid_rows_not_fallback:
  "\<not> (truthy (csv_id (exampleRow '''' ''math'')) \<and> truthy (csv_question (exampleRow '''' ''math'')))
   \<and> questions (loadQuestions initial (Parsed [exampleRow '''' ''math''])) = []
   \<and> questions (loadQuestions initial (Parsed [exampleRow '''' ''math''])) \<noteq> fallbackQuestions
   \<and> questions (setupFallbackQuestions initial) = fallbackQuestions"
  by (simp add: loadQuestions_def keepRow_def exampleRow_def truthy_def fallbackQuestions_def setupFallbackQuestions_def)

text \<open>
  C5 (fallback totality). The claim fails for the category \<open>constructor\<close>:
  \<open>getFallbackQuestion\<close> returns the member of \<open>Object.prototype\<close> of that name, not a
  question, and so does \<open>getRandomQuestion\<close> on a bank without a question of that
  category.
\<close>

theorem fallback_inherited_name:
  "getFallbackQuestion ''constructor'' = PrototypeMember ''constructor''
   \<and> categoryQuestions (loadQuestions initial SourceUnavailable) ''constructor'' = []
   \<and> getRandomQuestion asciiUpperCase 0 (loadQuestions initial SourceUnavailable) (Some ''constructor'')
       = Some (PrototypeMember ''constructor'', loadQuestions initial SourceUnavailable)"
proof -
  have a: "getFallbackQuestion ''constructor'' = PrototypeMember ''constructor''"
    by (simp add: getFallbackQuestion_def objectPrototypeKeys_def)
  have b: "categoryQuestions (loadQuestions initial SourceUnavailable) ''constructor'' = []"
    by (simp add: fallback_state categoryQuestions_def fallbackQuestions_def)
  from getRandomQuestion_empty[OF b, of asciiUpperCase 0] a b show ?thesis by simp
qed

text \<open>
  C6 (counts follow the bank), as the code has it. After every load, for every category
  that is neither the empty string nor a name inherited from \<open>Object.prototype\<close>, the
  count mapping has the number of the bank's questions of that category, and no entry
  when there is none; the empty category is never counted. \<open>loadSavedData\<close>,
  \<open>resetUsedQuestions\<close> and \<open>getRandomQuestion\<close> leave the count mapping as it is.
\<close>

theorem counts_follow_load:
  assumes "c \<noteq> []" and "c \<notin> set objectPrototypeKeys"
  shows "categoryCounts (loadQuestions s src) c =
       (if categoryQuestions (loadQuestions s src) c = [] then None
        else Some (Num (length (categoryQuestions (loadQuestions s src) c))))
    \<and> categoryCounts (loadQuestions s src) [] = None
    \<and> categoryCounts (loadSavedData s d) = categoryCounts s
    \<and> categoryCounts (resetUsedQuestions s) = categoryCounts s
    \<and> (getRandomQuestion toUpperCase random s arg = Some (res, s') \<longrightarrow>
         categoryCounts s' = categoryCounts s)"
proof -
  have "categoryCounts (loadSavedData s d) = categoryCounts s"
    by (cases d) (simp_all add: loadSavedData_def)
  moreover have "categoryCounts (resetUsedQuestions s) = categoryCounts s"
    by (simp add: resetUsedQuestions_def saveData_def)
  moreover have "getRandomQuestion toUpperCase random s arg = Some (res, s') \<longrightarrow>
         categoryCounts s' = categoryCounts s"
    using getRandomQuestion_frame[of toUpperCase random s arg "(res, s')"] by simp
  ultimately show ?thesis
    using loaded_count_exact[OF assms, of s src] loaded_empty_category[of s src] by simp
qed

text \<open>
  C6 for the category funfacts of the built-in bank, and a call that returns.
\<close>

theorem counts_follow_load_witness:
  "''funfacts'' \<noteq> [] \<and> ''funfacts'' \<notin> set objectPrototypeKeys
   \<and> categoryQuestions (loadQuestions initial SourceUnavailable) ''funfacts'' \<noteq> []
   \<and> categoryCounts (loadQuestions initial SourceUnavailable) ''funfacts'' =
        Some (Num (length (categoryQuestions (loadQuestions initial SourceUnavailable) ''funfacts'')))
   \<and> getRandomQuestion asciiUpperCase 0 (loadQuestions initial SourceUnavailable) (Some ''funfacts'') =
        Some (Question (formatQuestion (fallbackQuestions ! 0)),
              (loadQuestions initial SourceUnavailable)\<lparr>usedQuestionIds := [''A1'']\<rparr>)
   \<and> categoryCounts ((loadQuestions initial SourceUnavailable)\<lparr>usedQuestionIds := [''A1'']\<rparr>) =
        categoryCounts (loadQuestions initial SourceUnavailable)"
proof -
  let ?s = "loadQuestions initial SourceUnavailable"
  have h1: "''funfacts'' \<noteq> []" by simp
  have h2: "''funfacts'' \<notin> set objectPrototypeKeys" by (simp add: objectPrototypeKeys_def)
  have ne: "categoryQuestions (loadQuestions initial SourceUnavailable) ''funfacts'' \<noteq> []"
    by (simp add: fallback_state categoryQuestions_def fallbackQuestions_def)
  from counts_follow_load[OF h1 h2, of initial SourceUnavailable NoRecord asciiUpperCase 0
      "Some ''funfacts''" "Question (formatQuestion (fallbackQuestions ! 0))"
      "?s\<lparr>usedQuestionIds := [''A1'']\<rparr>"]
  have "categoryCounts ?s ''funfacts'' =
        Some (Num (length (categoryQuestions ?s ''funfacts'')))"
    using ne by simp
  with h1 h2 ne fallback_first_call show ?thesis by simp
qed

text \<open>
  C6 as stated fails for the empty category and for \<open>constructor\<close>: each has one
  question in the bank below, and the counts read \<open>undefined\<close> and \<open>NaN\<close>.
\<close>

theorem counts_miss_empty_and_inherited:
  "length (categoryQuestions
      (loadQuestions initial (Parsed [exampleRow ''X1'' '''', exampleRow ''X2'' ''constructor''])) '''') = 1
   \<and> getProp (categoryCounts
      (loadQuestions initial (Parsed [exampleRow ''X1'' '''', exampleRow ''X2'' ''constructor''])))
        '''' = Undefined
   \<and> length (categoryQuestions
      (loadQuestions initial (Parsed [exampleRow ''X1'' '''', exampleRow ''X2'' ''constructor'']))
        ''constructor'') = 1
   \<and> getProp (categoryCounts
      (loadQuestions initial (Parsed [exampleRow ''X1'' '''', exampleRow ''X2'' ''constructor''])))
        ''constructor'' = Number NaN"
  by (simp add: loadQuestions_def initial_def keepRow_exampleRow categoryQuestions_def
        countCategories_def countQuestion_exampleQuestion getProp_def setProp_def truthyVal_def
        increment_def objectPrototypeKeys_def Let_def)
     (simp add: exampleQuestion_def)

text \<open>
  C7 (loading the usage state never fails). \<open>loadSavedData\<close> is a total function of
  the service and of what the store gives. When the read fails, no record exists or the
  record cannot be parsed, the freshly constructed service is unchanged, so its used-id
  set stays empty (and in general the set stays what it was). A record with an array
  \<open>usedQuestionIds\<close> makes the used-id set exactly the set of the persisted ids; a
  record without the field makes it empty.
\<close>

theorem loadSavedData_total:
  "loadSavedData initial ReadFails = initial
   \<and> loadSavedData initial NoRecord = initial
   \<and> loadSavedData initial Unparsable = initial
   \<and> usedQuestionIds initial = []
   \<and> usedQuestionIds (loadSavedData s ReadFails) = usedQuestionIds s
   \<and> usedQuestionIds (loadSavedData s NoRecord) = usedQuestionIds s
   \<and> usedQuestionIds (loadSavedData s Unparsable) = usedQuestionIds s
   \<and> set (usedQuestionIds (loadSavedData s (Record (Some ids)))) = set ids
   \<and> distinct (usedQuestionIds (loadSavedData s (Record (Some ids))))
   \<and> usedQuestionIds (loadSavedData s (Record None)) = []"
  by (simp add: loadSavedData_def initial_def newSet_def)

text \<open>
  C8 (category enumeration). On a bank that is not empty, \<open>getCategories\<close> returns the
  category values of the bank's questions, each once; on the empty bank it returns the
  seven names funfacts, psychology, math, science, history, english, general.
\<close>

theorem getCategories_distinct:
  "(questions s \<noteq> [] \<longrightarrow>
      set (getCategories s) = q_category ` set (questions s) \<and> distinct (getCategories s))
   \<and> (questions s = [] \<longrightarrow> getCategories s = map Some defaultCategories)
   \<and> defaultCategories =
        [''funfacts'', ''psychology'', ''math'', ''science'', ''history'', ''english'', ''general'']"
  by (auto simp: getCategories_def Let_def defaultCategories_def)

text \<open>
  C8 on the built-in bank (not empty) and on the freshly constructed service (empty).
\<close>

theorem getCategories_distinct_witness:
  "questions (loadQuestions initial SourceUnavailable) \<noteq> []
   \<and> set (getCategories (loadQuestions initial SourceUnavailable)) = {Some ''funfacts'', Some ''psychology''}
   \<and> distinct (getCategories (loadQuestions initial SourceUnavailable))
   \<and> questions initial = []
   \<and> getCategories initial = map Some defaultCategories"
proof -
  have a: "questions (loadQuestions initial SourceUnavailable) \<noteq> []"
    by (simp add: loadQuestions_def setupFallbackQuestions_def fallbackQuestions_def)
  have b: "questions initial = []" by (simp add: initial_def)
  have c: "q_category ` set (questions (loadQuestions initial SourceUnavailable)) =
            {Some ''funfacts'', Some ''psychology''}"
    by (simp add: loadQuestions_def setupFallbackQuestions_def fallbackQuestions_def)
  from getCategories_distinct[of "loadQuestions initial SourceUnavailable"]
       getCategories_distinct[of initial] a b c
  show ?thesis by simp
qed

text \<open>
  C9 (the bank is not mutated). A call of \<open>getRandomQuestion\<close> that returns, and
  \<open>resetUsedQuestions\<close>, leave the question sequence and the count mapping as they
  were; only the used-id set can differ. \<open>getFallbackQuestion\<close> and \<open>getCategories\<close>
  assign no field of the service and are functions of their arguments alone.
\<close>

theorem bank_never_mutated:
  "(getRandomQuestion toUpperCase random s arg = Some (res, s') \<longrightarrow>
      questions s' = questions s \<and> categoryCounts s' = categoryCounts s)
   \<and> questions (resetUsedQuestions s) = questions s
   \<and> categoryCounts (resetUsedQuestions s) = categoryCounts s"
  using getRandomQuestion_frame[of toUpperCase random s arg "(res, s')"]
  by (simp add: resetUsedQuestions_def saveData_def)

text \<open>
  C9 on the first call on the built-in bank.
\<close>

theorem bank_never_mutated_witness:
  "getRandomQuestion asciiUpperCase 0 (loadQuestions initial SourceUnavailable) (Some ''funfacts'') =
        Some (Question (formatQuestion (fallbackQuestions ! 0)),
              (loadQuestions initial SourceUnavailable)\<lparr>usedQuestionIds := [''A1'']\<rparr>)
   \<and> questions ((loadQuestions initial SourceUnavailable)\<lparr>usedQuestionIds := [''A1'']\<rparr>) =
        questions (loadQuestions initial SourceUnavailable)
   \<and> categoryCounts ((loadQuestions initial SourceUnavailable)\<lparr>usedQuestionIds := [''A1'']\<rparr>) =
        categoryCounts (loadQuestions initial SourceUnavailable)"
  using bank_never_mutated[of asciiUpperCase 0 "loadQuestions initial SourceUnavailable"
      "Some ''funfacts''" "Question (formatQuestion (fallbackQuestions ! 0))"
      "(loadQuestions initial SourceUnavailable)\<lparr>usedQuestionIds := [''A1'']\<rparr>"]
    fallback_first_call
  by simp

text \<open>
  C10 (default category). A call without a category argument is the call with the
  argument \<open>'funfacts'\<close>, for every bank, usage state, case mapping and random value,
  also where the call does not return.
\<close>

theorem default_category:
  "getRandomQuestion toUpperCase random s None =
   getRandomQuestion toUpperCase random s (Some ''funfacts'')"
  by (subst getRandomQuestion.simps, subst (2) getRandomQuestion.simps) simp

end
